theory Spec2Isabelle
  imports Complex_Main "HOL-Library.AList"
begin

section \<open>Data objects exchanged with the trading framework\<close>

text \<open>
  Modelled from the spec: the data classes \<open>TickData\<close>, \<open>ContractData\<close>,
  \<open>PositionData\<close>, \<open>SubscribeRequest\<close>, \<open>OrderRequest\<close> and \<open>LogData\<close> and the enums
  \<open>Direction\<close>, \<open>OrderType\<close> and \<open>Offset\<close> are imported by \<open>run.py\<close> from the trading
  framework and are not part of the source. Section 3 of the spec gives their fields; the
  instrument key (\<open>vt_symbol\<close>) is "a globally unique identifier combining a symbol and
  its trading venue/exchange", so it is computed from these two fields, for every object
  that carries them. Prices, volumes and contract sizes are Python floats; they are
  modelled as real numbers (rounding and NaN are outside the model). Time stamps are
  abstract natural numbers. An exchange is written by its name.
\<close>

type_synonym exchange = string

datatype direction = LONG | SHORT | NET

datatype order_type = LIMIT | MARKET

datatype offset = OPEN | CLOSE

record instrument =
  symbol :: string
  exchange :: exchange

definition vt_symbol :: "'a instrument_scheme \<Rightarrow> string" where
  "vt_symbol d = symbol d @ ''.'' @ exchange d"

record tick_data = instrument +
  datetime :: nat
  last_price :: real

record contract_data = instrument +
  contract_size :: real

record position_data = instrument +
  vt_positionid :: string
  direction :: direction
  volume :: real

type_synonym subscribe_request = instrument

record order_request = instrument +
  order_direction :: direction
  order_type :: order_type
  price :: real
  order_volume :: real
  offset :: offset

text \<open>
  The two log messages of the strategy are format strings with the instrument key and the
  time stamp of the newest tick: "bought to open one lot" and "sold to close one lot".
\<close>

datatype log_msg = Buy_open_1 string nat | Sell_close_1 string nat

record log_data =
  msg :: log_msg
  gateway_name :: string

text \<open>The dictionary carried by an \<open>EVENT_STRATEGY\<close> event.\<close>

record strategy_data =
  sig_vt_symbol :: string
  sig_datetime :: nat
  sig_last_price :: real
  sig_trading_target :: int

datatype event =
    EVENT_TICK tick_data
  | EVENT_CONTRACT contract_data
  | EVENT_POSITION position_data
  | EVENT_LOG log_data
  | EVENT_STRATEGY strategy_data

text \<open>The calls the engine makes on its gateway.\<close>

datatype gateway_call = Subscribe subscribe_request | SendOrder order_request

section \<open>The strategy engine\<close>

text \<open>
  The attributes of \<open>StrategyEngine\<close>. The two collaborators are recorded by what the
  engine hands to them, oldest first: \<open>event_engine\<close> holds the events given to
  \<open>event_engine.put\<close>, \<open>gateway\<close> the calls of \<open>gateway.subscribe\<close> and
  \<open>gateway.send_order\<close>. \<open>positions\<close> keeps the insertion order of the Python dict, which
  \<open>calculate_value\<close> iterates. \<open>tick_history\<close> and \<open>trading_targets\<close> are
  \<open>defaultdict\<close>s: a key never written reads as the empty list and as 0.
\<close>

record engine =
  event_engine :: "event list"
  gateway :: "gateway_call list"
  ticks :: "string \<rightharpoonup> tick_data"
  contracts :: "string \<rightharpoonup> contract_data"
  positions :: "(string \<times> position_data) list"
  subscribed :: "string set"
  tick_history :: "string \<Rightarrow> tick_data list"
  trading_symbols :: "string set"
  trading_targets :: "string \<Rightarrow> int"

datatype error = KeyError string

text \<open>
  A handler either returns or raises; in both cases the engine keeps what the handler
  has written up to that point.
\<close>

datatype outcome = Returned engine | Raised error engine

fun state_of :: "outcome \<Rightarrow> engine" where
  "state_of (Returned s) = s"
| "state_of (Raised e s) = s"

fun raised :: "outcome \<Rightarrow> bool" where
  "raised (Returned s) = False"
| "raised (Raised e s) = True"

definition put :: "event \<Rightarrow> engine \<Rightarrow> engine" where
  "put ev s = s\<lparr>event_engine := event_engine s @ [ev]\<rparr>"

definition subscribe :: "subscribe_request \<Rightarrow> engine \<Rightarrow> engine" where
  "subscribe req s = s\<lparr>gateway := gateway s @ [Subscribe req]\<rparr>"

definition send_order :: "order_request \<Rightarrow> engine \<Rightarrow> engine" where
  "send_order req s = s\<lparr>gateway := gateway s @ [SendOrder req]\<rparr>"

definition load_setting :: "string list \<Rightarrow> engine \<Rightarrow> engine" where
  "load_setting vt_symbols s =
     fold (\<lambda>x e. e\<lparr>trading_symbols := insert x (trading_symbols e)\<rparr>) vt_symbols s"

text \<open>\<open>__init__\<close>; the argument is the list read from \<open>setting.json\<close>.\<close>

definition init :: "string list \<Rightarrow> engine" where
  "init vt_symbols =
     load_setting vt_symbols
       \<lparr>event_engine = [], gateway = [], ticks = Map.empty, contracts = Map.empty,
        positions = [], subscribed = {}, tick_history = (\<lambda>k. []),
        trading_symbols = {}, trading_targets = (\<lambda>k. 0)\<rparr>"

definition write_log :: "log_msg \<Rightarrow> engine \<Rightarrow> engine" where
  "write_log m s = put (EVENT_LOG \<lparr>msg = m, gateway_name = ''STRATEGY''\<rparr>) s"

definition run_trading :: "string \<Rightarrow> engine \<Rightarrow> outcome" where
  "run_trading k s =
     (let history = tick_history s k in
      if length history < 3 then Returned s
      else
        let tick1 = history ! (length history - 1);
            tick2 = history ! (length history - 2);
            tick3 = history ! (length history - 3)
        in case contracts s k of
             None \<Rightarrow> Raised (KeyError k) s
           | Some contract \<Rightarrow>
               let s1 =
                     (if last_price tick1 > last_price tick2
                         \<and> last_price tick2 > last_price tick3
                      then
                        (if trading_targets s k = 0
                         then
                           write_log (Buy_open_1 k (datetime tick1))
                             ((send_order
                                 \<lparr>symbol = symbol contract, exchange = exchange contract,
                                  order_direction = LONG, order_type = LIMIT,
                                  price = last_price tick1 + 10, order_volume = 1,
                                  offset = OPEN\<rparr> s)
                               \<lparr>trading_targets := (trading_targets s)(k := 1)\<rparr>)
                         else s)
                      else s);
                   s2 =
                     (if last_price tick1 < last_price tick2
                         \<and> last_price tick2 < last_price tick3
                      then
                        (if trading_targets s1 k > 0
                         then
                           write_log (Sell_close_1 k (datetime tick1))
                             ((send_order
                                 \<lparr>symbol = symbol contract, exchange = exchange contract,
                                  order_direction = SHORT, order_type = LIMIT,
                                  price = last_price tick1 - 10, order_volume = 1,
                                  offset = CLOSE\<rparr> s1)
                               \<lparr>trading_targets := (trading_targets s1)(k := 0)\<rparr>)
                         else s1)
                      else s1)
               in Returned
                    (put (EVENT_STRATEGY
                            \<lparr>sig_vt_symbol = k, sig_datetime = datetime tick1,
                             sig_last_price = last_price tick1,
                             sig_trading_target = trading_targets s2 k\<rparr>) s2))"

definition process_tick_event :: "tick_data \<Rightarrow> engine \<Rightarrow> outcome" where
  "process_tick_event tick s =
     (let s1 = s\<lparr>ticks := (ticks s)(vt_symbol tick \<mapsto> tick)\<rparr> in
      if vt_symbol tick \<in> trading_symbols s1
      then
        run_trading (vt_symbol tick)
          (s1\<lparr>tick_history :=
                (tick_history s1)
                  (vt_symbol tick := tick_history s1 (vt_symbol tick) @ [tick])\<rparr>)
      else Returned s1)"

definition process_contract_event :: "contract_data \<Rightarrow> engine \<Rightarrow> engine" where
  "process_contract_event contract s =
     (let s1 = s\<lparr>contracts := (contracts s)(vt_symbol contract \<mapsto> contract)\<rparr> in
      if vt_symbol contract \<in> trading_symbols s1
      then subscribe \<lparr>symbol = symbol contract, exchange = exchange contract\<rparr> s1
      else s1)"

definition process_position_event :: "position_data \<Rightarrow> engine \<Rightarrow> engine" where
  "process_position_event position s =
     (let s1 = s\<lparr>positions :=
                   AList.update (vt_positionid position) position (positions s)\<rparr> in
      if vt_symbol position \<in> subscribed s1 then s1
      else
        case contracts s1 (vt_symbol position) of
          None \<Rightarrow> s1
        | Some contract \<Rightarrow>
            (subscribe \<lparr>symbol = symbol contract, exchange = exchange contract\<rparr> s1)
              \<lparr>subscribed := insert (vt_symbol position) (subscribed s1)\<rparr>)"

text \<open>
  \<open>calculate_value\<close> prints one line per position that has both a tick and a contract;
  a line is recorded by the values formatted into it. The function returns what it
  printed together with the engine it leaves behind.
\<close>

record value_line =
  line_vt_symbol :: string
  line_direction :: direction
  line_value :: real

fun value_loop :: "position_data list \<Rightarrow> engine \<Rightarrow> value_line list" where
  "value_loop [] s = []"
| "value_loop (position # rest) s =
     (case ticks s (vt_symbol position) of
        None \<Rightarrow> value_loop rest s
      | Some tick \<Rightarrow>
          (case contracts s (vt_symbol position) of
             None \<Rightarrow> value_loop rest s
           | Some contract \<Rightarrow>
               \<lparr>line_vt_symbol = vt_symbol position,
                line_direction = direction position,
                line_value = volume position * last_price tick * contract_size contract\<rparr>
               # value_loop rest s))"

definition calculate_value :: "engine \<Rightarrow> value_line list \<times> engine" where
  "calculate_value s = (value_loop (map snd (positions s)) s, s)"

definition process_timer_event :: "engine \<Rightarrow> value_line list \<times> engine" where
  "process_timer_event s = calculate_value s"

definition process_log_event :: "log_data \<Rightarrow> engine \<Rightarrow> log_msg list \<times> engine" where
  "process_log_event d s = ([msg d], s)"

text \<open>
  The handlers registered in \<open>__init__\<close>: tick, contract, position and log events
  (the timer registration is commented out in the source, and nothing is registered for
  \<open>EVENT_STRATEGY\<close>). What \<open>process_log_event\<close> prints is not part of the engine.
\<close>

fun dispatch :: "event \<Rightarrow> engine \<Rightarrow> outcome" where
  "dispatch (EVENT_TICK tick) s = process_tick_event tick s"
| "dispatch (EVENT_CONTRACT contract) s = Returned (process_contract_event contract s)"
| "dispatch (EVENT_POSITION position) s = Returned (process_position_event position s)"
| "dispatch (EVENT_LOG d) s = Returned (snd (process_log_event d s))"
| "dispatch (EVENT_STRATEGY d) s = Returned s"

text \<open>Events are handled one after the other; an exception ends the run.\<close>

fun run :: "event list \<Rightarrow> engine \<Rightarrow> outcome" where
  "run [] s = Returned s"
| "run (e # es) s =
     (case dispatch e s of
        Returned s' \<Rightarrow> run es s'
      | Raised err s' \<Rightarrow> Raised err s')"

section \<open>Quantities the properties speak about\<close>

text \<open>
  Invariant of the target states: a target is 0 (flat) or 1 (long), and an instrument
  with target 1 has a contract.
\<close>

definition targets_ok :: "engine \<Rightarrow> bool" where
  "targets_ok s \<longleftrightarrow>
     (\<forall>k. trading_targets s k = 0 \<or> (trading_targets s k = 1 \<and> contracts s k \<noteq> None))"

fun is_strategy_event :: "event \<Rightarrow> bool" where
  "is_strategy_event (EVENT_STRATEGY d) = True"
| "is_strategy_event e = False"

text \<open>
  The number of \<open>gateway.subscribe\<close> calls, among the given calls, whose request is for
  the instrument \<open>k\<close>.
\<close>

fun is_subscribe_for :: "string \<Rightarrow> gateway_call \<Rightarrow> bool" where
  "is_subscribe_for k (Subscribe req) = (vt_symbol req = k)"
| "is_subscribe_for k (SendOrder req) = False"

definition subscribe_count :: "string \<Rightarrow> gateway_call list \<Rightarrow> nat" where
  "subscribe_count k calls = length (filter (is_subscribe_for k) calls)"

text \<open>The number of contract events for the instrument \<open>k\<close> in an event list.\<close>

fun is_contract_for :: "string \<Rightarrow> event \<Rightarrow> bool" where
  "is_contract_for k (EVENT_CONTRACT c) = (vt_symbol c = k)"
| "is_contract_for k e = False"

definition contract_events :: "string \<Rightarrow> event list \<Rightarrow> nat" where
  "contract_events k es = length (filter (is_contract_for k) es)"

fun is_contract_or_position :: "event \<Rightarrow> bool" where
  "is_contract_or_position (EVENT_CONTRACT c) = True"
| "is_contract_or_position (EVENT_POSITION p) = True"
| "is_contract_or_position e = False"

text \<open>
  Whether some position event for \<open>k\<close> comes after a contract event for \<open>k\<close> in the
  list; \<open>known\<close> says that a contract for \<open>k\<close> was seen before the list starts.
\<close>

fun position_after_contract :: "string \<Rightarrow> bool \<Rightarrow> event list \<Rightarrow> bool" where
  "position_after_contract k known [] = False"
| "position_after_contract k known (EVENT_CONTRACT c # es) =
     position_after_contract k (known \<or> vt_symbol c = k) es"
| "position_after_contract k known (EVENT_POSITION p # es) =
     ((known \<and> vt_symbol p = k) \<or> position_after_contract k known es)"
| "position_after_contract k known (e # es) = position_after_contract k known es"

text \<open>
  The number of subscribe calls for \<open>k\<close> that the position handler issues while the
  events are handled from the engine \<open>s\<close>: for each position event, the calls the gateway
  has received beyond those it had before the handler ran.
\<close>

fun position_subscribes :: "string \<Rightarrow> event list \<Rightarrow> engine \<Rightarrow> nat" where
  "position_subscribes k [] s = 0"
| "position_subscribes k (e # es) s =
     (case dispatch e s of
        Raised err s' \<Rightarrow> 0
      | Returned s' \<Rightarrow>
          (case e of
             EVENT_POSITION p \<Rightarrow> subscribe_count k (drop (length (gateway s)) (gateway s'))
           | _ \<Rightarrow> 0)
          + position_subscribes k es s')"

text \<open>Every contract is stored under its own instrument key.\<close>

definition contracts_keyed :: "engine \<Rightarrow> bool" where
  "contracts_keyed s \<longleftrightarrow> (\<forall>k c. contracts s k = Some c \<longrightarrow> vt_symbol c = k)"

text \<open>Every subscribed instrument key has a contract stored.\<close>

definition subscribed_have_contracts :: "engine \<Rightarrow> bool" where
  "subscribed_have_contracts s \<longleftrightarrow> subscribed s \<subseteq> dom (contracts s)"


section \<open>Example inputs\<close>

definition rb_tick :: "real \<Rightarrow> nat \<Rightarrow> tick_data" where
  "rb_tick p d = \<lparr>symbol = ''rb'', exchange = ''SHFE'', datetime = d, last_price = p\<rparr>"

definition rb_contract :: contract_data where
  "rb_contract = \<lparr>symbol = ''rb'', exchange = ''SHFE'', contract_size = 10\<rparr>"

definition two_rising_ticks :: engine where
  "two_rising_ticks =
     state_of (run [EVENT_TICK (rb_tick 10 1), EVENT_TICK (rb_tick 11 2)] (init [''rb.SHFE'']))"

definition contract_then_two_rising_ticks :: engine where
  "contract_then_two_rising_ticks =
     state_of (run [EVENT_CONTRACT rb_contract, EVENT_TICK (rb_tick 10 1),
                    EVENT_TICK (rb_tick 11 2)] (init [''rb.SHFE'']))"


definition long_after_three_rising_ticks :: engine where
  "long_after_three_rising_ticks =
     state_of (run [EVENT_CONTRACT rb_contract, EVENT_TICK (rb_tick 10 1),
                    EVENT_TICK (rb_tick 11 2), EVENT_TICK (rb_tick 12 3)] (init [''rb.SHFE'']))"

definition contract_only :: engine where
  "contract_only = state_of (run [EVENT_CONTRACT rb_contract] (init [''rb.SHFE'']))"

definition rb_position :: "real \<Rightarrow> position_data" where
  "rb_position v =
     \<lparr>symbol = ''rb'', exchange = ''SHFE'', vt_positionid = ''CTP.rb.SHFE.Long'',
      direction = LONG, volume = v\<rparr>"

definition hc_position :: position_data where
  "hc_position =
     \<lparr>symbol = ''hc'', exchange = ''SHFE'', vt_positionid = ''CTP.hc.SHFE.Short'',
      direction = SHORT, volume = 3\<rparr>"


section \<open>Basic facts\<close>

lemma load_setting_fields:
  "trading_symbols (load_setting xs s) = trading_symbols s \<union> set xs"
  "event_engine (load_setting xs s) = event_engine s"
  "gateway (load_setting xs s) = gateway s"
  "ticks (load_setting xs s) = ticks s"
  "contracts (load_setting xs s) = contracts s"
  "positions (load_setting xs s) = positions s"
  "subscribed (load_setting xs s) = subscribed s"
  "tick_history (load_setting xs s) = tick_history s"
  "trading_targets (load_setting xs s) = trading_targets s"
  unfolding load_setting_def by (induction xs arbitrary: s) auto

lemma init_fields:
  "trading_symbols (init xs) = set xs"
  "event_engine (init xs) = []"
  "gateway (init xs) = []"
  "ticks (init xs) = Map.empty"
  "contracts (init xs) = Map.empty"
  "positions (init xs) = []"
  "subscribed (init xs) = {}"
  "tick_history (init xs) = (\<lambda>k. [])"
  "trading_targets (init xs) = (\<lambda>k. 0)"
  by (simp_all add: init_def load_setting_fields)

lemmas effect_defs = put_def subscribe_def send_order_def write_log_def

lemmas handler_defs =
  process_tick_event_def run_trading_def process_contract_event_def
  process_position_event_def process_log_event_def

lemmas example_defs = rb_tick_def rb_contract_def vt_symbol_def

lemma two_rising_ticks_fields:
  "trading_symbols two_rising_ticks = {''rb.SHFE''}"
  "tick_history two_rising_ticks ''rb.SHFE'' = [rb_tick 10 1, rb_tick 11 2]"
  "trading_targets two_rising_ticks ''rb.SHFE'' = 0"
  "contracts two_rising_ticks ''rb.SHFE'' = None"
  "gateway two_rising_ticks = []"
  "event_engine two_rising_ticks = []"
  by (simp_all add: two_rising_ticks_def init_fields handler_defs example_defs Let_def)

lemma contract_then_two_rising_ticks_fields:
  "trading_symbols contract_then_two_rising_ticks = {''rb.SHFE''}"
  "tick_history contract_then_two_rising_ticks ''rb.SHFE'' = [rb_tick 10 1, rb_tick 11 2]"
  "trading_targets contract_then_two_rising_ticks ''rb.SHFE'' = 0"
  "contracts contract_then_two_rising_ticks ''rb.SHFE'' = Some rb_contract"
  "gateway contract_then_two_rising_ticks = [Subscribe \<lparr>symbol = ''rb'', exchange = ''SHFE''\<rparr>]"
  "event_engine contract_then_two_rising_ticks = []"
  by (simp_all add: contract_then_two_rising_ticks_def init_fields handler_defs effect_defs
      example_defs Let_def)

section \<open>The momentum rule\<close>




section \<open>What the handlers leave alone\<close>

lemma tick_keeps:
  "contracts (state_of (process_tick_event t s)) = contracts s"
  "subscribed (state_of (process_tick_event t s)) = subscribed s"
  "trading_symbols (state_of (process_tick_event t s)) = trading_symbols s"
  "positions (state_of (process_tick_event t s)) = positions s"
  by (simp_all add: process_tick_event_def run_trading_def effect_defs Let_def
      split: option.splits)

lemma contract_keeps:
  "trading_targets (process_contract_event c s) = trading_targets s"
  "subscribed (process_contract_event c s) = subscribed s"
  "trading_symbols (process_contract_event c s) = trading_symbols s"
  "tick_history (process_contract_event c s) = tick_history s"
  "event_engine (process_contract_event c s) = event_engine s"
  "contracts (process_contract_event c s) = (contracts s)(vt_symbol c \<mapsto> c)"
  by (simp_all add: process_contract_event_def effect_defs Let_def)

lemma position_keeps:
  "trading_targets (process_position_event p s) = trading_targets s"
  "contracts (process_position_event p s) = contracts s"
  "trading_symbols (process_position_event p s) = trading_symbols s"
  "tick_history (process_position_event p s) = tick_history s"
  "event_engine (process_position_event p s) = event_engine s"
  by (simp_all add: process_position_event_def effect_defs Let_def split: option.splits)

section \<open>Target states of reachable engines\<close>

lemma targets_ok_init: "targets_ok (init xs)"
  by (simp add: targets_ok_def init_fields)

lemma targets_ok_tick: "targets_ok s \<Longrightarrow> targets_ok (state_of (process_tick_event t s))"
  unfolding targets_ok_def
  by (auto simp add: process_tick_event_def run_trading_def effect_defs Let_def
      split: option.splits)

lemma targets_ok_dispatch: "targets_ok s \<Longrightarrow> targets_ok (state_of (dispatch e s))"
proof (cases e)
  case (EVENT_TICK t)
  assume "targets_ok s"
  with EVENT_TICK show ?thesis by (simp add: targets_ok_tick)
next
  case (EVENT_CONTRACT c)
  assume "targets_ok s"
  with EVENT_CONTRACT show ?thesis
    by (auto simp add: targets_ok_def contract_keeps)
next
  case (EVENT_POSITION p)
  assume "targets_ok s"
  with EVENT_POSITION show ?thesis
    by (auto simp add: targets_ok_def position_keeps)
next
  case (EVENT_LOG d)
  assume "targets_ok s"
  with EVENT_LOG show ?thesis by (simp add: process_log_event_def)
next
  case (EVENT_STRATEGY d)
  assume "targets_ok s"
  with EVENT_STRATEGY show ?thesis by simp
qed

lemma targets_ok_run: "targets_ok s \<Longrightarrow> targets_ok (state_of (run es s))"
proof (induction es arbitrary: s)
  case Nil
  then show ?case by simp
next
  case (Cons e es)
  show ?case
  proof (cases "dispatch e s")
    case (Returned s')
    with targets_ok_dispatch [OF Cons.prems, of e] have "targets_ok s'" by simp
    with Cons.IH Returned show ?thesis by simp
  next
    case (Raised err s')
    with targets_ok_dispatch [OF Cons.prems, of e] show ?thesis by simp
  qed
qed

lemma targets_ok_reachable: "targets_ok (state_of (run es (init xs)))"
  by (rule targets_ok_run [OF targets_ok_init])




lemma long_after_three_rising_ticks_fields:
  "trading_symbols long_after_three_rising_ticks = {''rb.SHFE''}"
  "tick_history long_after_three_rising_ticks ''rb.SHFE'' =
     [rb_tick 10 1, rb_tick 11 2, rb_tick 12 3]"
  "trading_targets long_after_three_rising_ticks ''rb.SHFE'' = 1"
  "contracts long_after_three_rising_ticks ''rb.SHFE'' = Some rb_contract"
  "gateway long_after_three_rising_ticks =
     [Subscribe \<lparr>symbol = ''rb'', exchange = ''SHFE''\<rparr>,
      SendOrder \<lparr>symbol = ''rb'', exchange = ''SHFE'', order_direction = LONG,
        order_type = LIMIT, price = 22, order_volume = 1, offset = OPEN\<rparr>]"
  by (simp_all add: long_after_three_rising_ticks_def init_fields handler_defs effect_defs
      example_defs Let_def)

lemma contract_only_fields:
  "trading_symbols contract_only = {''rb.SHFE''}"
  "tick_history contract_only ''rb.SHFE'' = []"
  "contracts contract_only ''rb.SHFE'' = Some rb_contract"
  "event_engine contract_only = []"
  by (simp_all add: contract_only_def init_fields handler_defs effect_defs
      example_defs Let_def)

text \<open>
  C5: in every state the engine reaches from its start, for every new tick \<open>tick1\<close>:
  if fewer than 3 ticks of history exist (counting the new one), or the three most recent
  prices are neither strictly increasing with target state 0 nor strictly decreasing with
  target state 1, then the gateway receives no call (no order is sent) and the target
  states are unchanged. This covers the plateau, the rising prices while already long, and
  the tick that raises for want of a contract.
\<close>

theorem no_order_without_qualifying_transition:
  assumes reach: "s = state_of (run es (init vt_symbols))"
    and hold: "length (tick_history s (vt_symbol tick1)) < 2 \<or>
      (tick_history s (vt_symbol tick1) = older @ [tick3, tick2] \<and>
       \<not> (last_price tick1 > last_price tick2 \<and> last_price tick2 > last_price tick3 \<and>
          trading_targets s (vt_symbol tick1) = 0) \<and>
       \<not> (last_price tick1 < last_price tick2 \<and> last_price tick2 < last_price tick3 \<and>
          trading_targets s (vt_symbol tick1) = 1))"
  shows "gateway (state_of (process_tick_event tick1 s)) = gateway s \<and>
    trading_targets (state_of (process_tick_event tick1 s)) = trading_targets s"
proof -
  have "targets_ok s"
    unfolding reach by (rule targets_ok_reachable)
  then have flat_or_long:
    "trading_targets s (vt_symbol tick1) = 0 \<or> trading_targets s (vt_symbol tick1) = 1"
    unfolding targets_ok_def by blast
  from hold show ?thesis
  proof
    assume "length (tick_history s (vt_symbol tick1)) < 2"
    then show ?thesis
      by (simp add: process_tick_event_def run_trading_def Let_def)
  next
    assume "tick_history s (vt_symbol tick1) = older @ [tick3, tick2] \<and>
       \<not> (last_price tick1 > last_price tick2 \<and> last_price tick2 > last_price tick3 \<and>
          trading_targets s (vt_symbol tick1) = 0) \<and>
       \<not> (last_price tick1 < last_price tick2 \<and> last_price tick2 < last_price tick3 \<and>
          trading_targets s (vt_symbol tick1) = 1)"
    with flat_or_long show ?thesis
      by (auto simp add: process_tick_event_def run_trading_def effect_defs Let_def nth_append
          split: option.splits)
  qed
qed

text \<open>
  Already long after 10, 11, 12: the next rising tick at 13 sends nothing.
\<close>

theorem no_order_without_qualifying_transition_witness:
  "gateway (state_of (process_tick_event (rb_tick 13 4) long_after_three_rising_ticks)) =
     gateway long_after_three_rising_ticks \<and>
   trading_targets (state_of (process_tick_event (rb_tick 13 4) long_after_three_rising_ticks)) =
     trading_targets long_after_three_rising_ticks"
  using no_order_without_qualifying_transition
    [OF long_after_three_rising_ticks_def,
      where ?tick1.0 = "rb_tick 13 4" and older = "[rb_tick 10 1]"
        and ?tick3.0 = "rb_tick 11 2" and ?tick2.0 = "rb_tick 12 3"]
  by (simp add: long_after_three_rising_ticks_fields example_defs)

text \<open>
  C8, as amended: for every new tick of a trading-set instrument for which at least 3
  ticks of history exist (counting the new one) and whose contract is known, the handler
  returns and has put exactly one status event, as its last event, carrying the instrument
  key, the time stamp and the price of the new tick and the target state after the rules
  were evaluated. It goes to the event engine; orders go to the gateway.
\<close>

theorem status_event_after_evaluation:
  assumes "vt_symbol tick1 \<in> trading_symbols s"
    and "tick_history s (vt_symbol tick1) = older @ [tick3, tick2]"
    and "contracts s (vt_symbol tick1) = Some contract"
    and "s' = state_of (process_tick_event tick1 s)"
    and "status = EVENT_STRATEGY
           \<lparr>sig_vt_symbol = vt_symbol tick1, sig_datetime = datetime tick1,
            sig_last_price = last_price tick1,
            sig_trading_target = trading_targets s' (vt_symbol tick1)\<rparr>"
  shows "\<not> raised (process_tick_event tick1 s) \<and>
    take (length (event_engine s)) (event_engine s') = event_engine s \<and>
    filter is_strategy_event (drop (length (event_engine s)) (event_engine s')) = [status] \<and>
    last (event_engine s') = status"
  using assms
  by (simp add: process_tick_event_def run_trading_def effect_defs Let_def nth_append)

lemma third_rising_tick_target:
  "trading_targets (state_of (process_tick_event (rb_tick 12 3) contract_then_two_rising_ticks))
     ''rb.SHFE'' = 1"
  by (simp add: contract_then_two_rising_ticks_fields handler_defs effect_defs Let_def)
    (simp add: example_defs)

theorem status_event_after_evaluation_witness:
  "filter is_strategy_event
     (event_engine (state_of (process_tick_event (rb_tick 12 3) contract_then_two_rising_ticks))) =
     [EVENT_STRATEGY \<lparr>sig_vt_symbol = ''rb.SHFE'', sig_datetime = 3, sig_last_price = 12,
        sig_trading_target = 1\<rparr>]"
  using status_event_after_evaluation
    [of "rb_tick 12 3" contract_then_two_rising_ticks "[]" "rb_tick 10 1" "rb_tick 11 2"
      rb_contract, OF _ _ _ refl refl]
    third_rising_tick_target
  by (simp add: contract_then_two_rising_ticks_fields example_defs)

text \<open>
  C8 as stated fails on the first tick of a trading-set instrument (its contract known):
  the handler returns before the rules and puts no event at all.
\<close>

theorem first_tick_emits_no_status_event:
  "vt_symbol (rb_tick 10 1) \<in> trading_symbols contract_only \<and>
   contracts contract_only (vt_symbol (rb_tick 10 1)) = Some rb_contract \<and>
   \<not> raised (process_tick_event (rb_tick 10 1) contract_only) \<and>
   event_engine (state_of (process_tick_event (rb_tick 10 1) contract_only)) = []"
  by (simp add: contract_only_fields handler_defs Let_def)
    (simp add: example_defs)

text \<open>
  C2 fails on the code: for a trading-set instrument with at least two earlier ticks and
  no contract, the tick handler raises \<open>KeyError\<close>.
\<close>

theorem tick_without_contract_raises:
  assumes "vt_symbol tick \<in> trading_symbols s"
    and "length (tick_history s (vt_symbol tick)) \<ge> 2"
    and "contracts s (vt_symbol tick) = None"
  shows "raised (process_tick_event tick s)"
  using assms
  by (simp add: process_tick_event_def run_trading_def Let_def)

text \<open>
  The failing input: ticks at 10, 11 and 12 for a trading-set instrument, no contract
  event before them.
\<close>

theorem tick_without_contract_raises_witness:
  "raised (process_tick_event (rb_tick 12 3) two_rising_ticks)"
  using tick_without_contract_raises [of "rb_tick 12 3" two_rising_ticks]
  by (simp add: two_rising_ticks_fields example_defs)

section \<open>Subscriptions over event sequences\<close>

lemma subscribe_count_simps:
  "subscribe_count k [] = 0"
  "subscribe_count k (xs @ ys) = subscribe_count k xs + subscribe_count k ys"
  "subscribe_count k [Subscribe req] = (if vt_symbol req = k then 1 else 0)"
  "subscribe_count k [SendOrder oreq] = 0"
  by (simp_all add: subscribe_count_def)

lemma request_key:
  "vt_symbol \<lparr>symbol = symbol c, exchange = exchange c\<rparr> = vt_symbol c"
  by (simp add: vt_symbol_def)

lemma contract_gateway:
  "gateway (process_contract_event c s) =
     gateway s @
       (if vt_symbol c \<in> trading_symbols s
        then [Subscribe \<lparr>symbol = symbol c, exchange = exchange c\<rparr>] else [])"
  by (simp add: process_contract_event_def effect_defs Let_def)

lemma position_gateway:
  "gateway (process_position_event p s) =
     gateway s @
       (case contracts s (vt_symbol p) of
          None \<Rightarrow> []
        | Some c \<Rightarrow>
            if vt_symbol p \<in> subscribed s then []
            else [Subscribe \<lparr>symbol = symbol c, exchange = exchange c\<rparr>])"
  by (simp add: process_position_event_def effect_defs Let_def split: option.splits)

lemma position_subscribed:
  "subscribed (process_position_event p s) =
     (if contracts s (vt_symbol p) = None then subscribed s
      else insert (vt_symbol p) (subscribed s))"
  by (auto simp add: process_position_event_def effect_defs Let_def split: option.splits)

lemma contracts_keyed_init: "contracts_keyed (init xs)"
  by (simp add: contracts_keyed_def init_fields)

lemma contracts_keyed_contract:
  "contracts_keyed s \<Longrightarrow> contracts_keyed (process_contract_event c s)"
  by (simp add: contracts_keyed_def contract_keeps)

lemma contracts_keyed_position:
  "contracts_keyed s \<Longrightarrow> contracts_keyed (process_position_event p s)"
  by (simp add: contracts_keyed_def position_keeps)

lemma contracts_keyed_tick:
  "contracts_keyed s \<Longrightarrow> contracts_keyed (state_of (process_tick_event t s))"
  by (simp add: contracts_keyed_def tick_keeps)

lemma contract_count:
  "subscribe_count k (gateway (process_contract_event c s)) =
     subscribe_count k (gateway s) +
       (if vt_symbol c = k \<and> k \<in> trading_symbols s then 1 else 0)"
  by (auto simp add: contract_gateway subscribe_count_simps request_key)

lemma position_count:
  assumes "contracts_keyed s"
  shows "subscribe_count k (gateway (process_position_event p s)) =
     subscribe_count k (gateway s) +
       (if vt_symbol p = k \<and> k \<notin> subscribed s \<and> contracts s k \<noteq> None then 1 else 0)"
proof (cases "contracts s (vt_symbol p)")
  case None
  then show ?thesis
    by (auto simp add: position_gateway subscribe_count_simps)
next
  case (Some c)
  with assms have "vt_symbol c = vt_symbol p"
    by (simp add: contracts_keyed_def)
  with Some show ?thesis
    by (auto simp add: position_gateway subscribe_count_simps request_key)
qed

lemma run_subscribe_count:
  assumes "list_all is_contract_or_position es" and "contracts_keyed s"
  shows "subscribe_count k (gateway (state_of (run es s))) =
     subscribe_count k (gateway s) +
     (if k \<in> trading_symbols s then contract_events k es else 0) +
     (if k \<notin> subscribed s \<and> position_after_contract k (contracts s k \<noteq> None) es
      then 1 else 0)"
  using assms
proof (induction es arbitrary: s)
  case Nil
  then show ?case by (simp add: contract_events_def)
next
  case (Cons e es)
  show ?case
  proof (cases e)
    case (EVENT_CONTRACT c)
    let ?s' = "process_contract_event c s"
    from Cons.prems have "list_all is_contract_or_position es" and "contracts_keyed ?s'"
      by (simp_all add: contracts_keyed_contract)
    from Cons.IH [OF this] EVENT_CONTRACT show ?thesis
      by (auto simp add: contract_count contract_keeps contract_events_def)
  next
    case (EVENT_POSITION p)
    let ?s' = "process_position_event p s"
    from Cons.prems have "list_all is_contract_or_position es" and "contracts_keyed ?s'"
      by (simp_all add: contracts_keyed_position)
    from Cons.IH [OF this] EVENT_POSITION Cons.prems(2) show ?thesis
      by (auto simp add: position_count position_keeps position_subscribed contract_events_def)
  next
    case (EVENT_TICK t)
    with Cons.prems show ?thesis by simp
  next
    case (EVENT_LOG d)
    with Cons.prems show ?thesis by simp
  next
    case (EVENT_STRATEGY d)
    with Cons.prems show ?thesis by simp
  qed
qed

lemmas position_defs = rb_position_def hc_position_def

text \<open>
  C1, as amended: for every instrument \<open>k\<close> and every sequence of contract and position
  events handled from the start of the engine, the number of subscribe requests for \<open>k\<close>
  is the number of contract events for \<open>k\<close> if \<open>k\<close> is in the trading set (none
  otherwise), plus one if some position event for \<open>k\<close> came after a contract event for
  \<open>k\<close>.
\<close>

theorem subscribe_count_of_events:
  assumes "list_all is_contract_or_position es"
  shows "subscribe_count k (gateway (state_of (run es (init vt_symbols)))) =
     (if k \<in> set vt_symbols then contract_events k es else 0) +
     (if position_after_contract k False es then 1 else 0)"
  using run_subscribe_count [OF assms contracts_keyed_init, of k vt_symbols]
  by (simp add: init_fields subscribe_count_simps)

text \<open>
  Outside the trading set: a position, the contract, two more positions; one subscribe.
\<close>

theorem subscribe_count_of_events_witness:
  "subscribe_count ''rb.SHFE''
     (gateway (state_of (run [EVENT_POSITION (rb_position 1), EVENT_CONTRACT rb_contract,
        EVENT_POSITION (rb_position 2), EVENT_POSITION (rb_position 3)] (init [])))) = 1"
  using subscribe_count_of_events
    [of "[EVENT_POSITION (rb_position 1), EVENT_CONTRACT rb_contract,
          EVENT_POSITION (rb_position 2), EVENT_POSITION (rb_position 3)]" "''rb.SHFE''" "[]"]
  by (simp add: contract_events_def example_defs position_defs)

text \<open>
  C1 as stated fails: for an instrument of the trading set, the contract event subscribes
  and the position event after it subscribes again.
\<close>

theorem contract_then_position_subscribes_twice:
  "subscribe_count (vt_symbol rb_contract)
     (gateway (state_of (run [EVENT_CONTRACT rb_contract, EVENT_POSITION (rb_position 1)]
        (init [''rb.SHFE''])))) = 2"
  by (simp add: init_fields handler_defs effect_defs Let_def subscribe_count_def)
    (simp add: example_defs position_defs)








section \<open>The position-driven path\<close>

lemma position_issued:
  assumes "contracts_keyed s"
  shows "subscribe_count k
      (drop (length (gateway s)) (gateway (process_position_event p s))) =
     (if vt_symbol p = k \<and> k \<notin> subscribed s \<and> contracts s k \<noteq> None then 1 else 0)"
proof (cases "contracts s (vt_symbol p)")
  case None
  then show ?thesis
    by (auto simp add: position_gateway subscribe_count_simps)
next
  case (Some c)
  with assms have "vt_symbol c = vt_symbol p"
    by (simp add: contracts_keyed_def)
  with Some show ?thesis
    by (auto simp add: position_gateway subscribe_count_simps request_key)
qed

lemma position_subscribes_bound:
  "contracts_keyed s \<Longrightarrow>
     position_subscribes k es s \<le> (if k \<in> subscribed s then 0 else 1)"
proof (induction es arbitrary: s)
  case Nil
  then show ?case by simp
next
  case (Cons e es)
  show ?case
  proof (cases e)
    case (EVENT_TICK t)
    show ?thesis
    proof (cases "process_tick_event t s")
      case (Returned s')
      then have s': "s' = state_of (process_tick_event t s)" by simp
      with Cons.prems have "contracts_keyed s'" and "subscribed s' = subscribed s"
        by (simp_all add: contracts_keyed_tick tick_keeps)
      with Cons.IH [of s'] EVENT_TICK Returned show ?thesis by simp
    next
      case (Raised err s')
      with EVENT_TICK show ?thesis by simp
    qed
  next
    case (EVENT_CONTRACT c)
    from Cons.prems have "contracts_keyed (process_contract_event c s)"
      by (rule contracts_keyed_contract)
    from Cons.IH [OF this] EVENT_CONTRACT show ?thesis
      by (simp add: contract_keeps)
  next
    case (EVENT_POSITION p)
    from Cons.prems have "contracts_keyed (process_position_event p s)"
      by (rule contracts_keyed_position)
    from Cons.IH [OF this] EVENT_POSITION Cons.prems show ?thesis
      by (auto simp add: position_issued position_subscribed split: if_splits)
  next
    case (EVENT_LOG d)
    with Cons.IH [OF Cons.prems] show ?thesis
      by (simp add: process_log_event_def)
  next
    case (EVENT_STRATEGY d)
    with Cons.IH [OF Cons.prems] show ?thesis by simp
  qed
qed

lemma position_gate:
  "vt_symbol p \<in> subscribed s \<Longrightarrow> gateway (process_position_event p s) = gateway s"
  by (simp add: position_gateway split: option.splits)

text \<open>
  C7: whatever events the engine handles from its start, the position handler issues at
  most one subscribe call for any instrument; and a position event whose instrument is
  already in \<open>subscribed\<close> issues no call.
\<close>

theorem position_path_subscribes_at_most_once:
  "position_subscribes k es (init vt_symbols) \<le> 1 \<and>
   (vt_symbol p \<in> subscribed s \<longrightarrow> gateway (process_position_event p s) = gateway s)"
  using position_subscribes_bound [OF contracts_keyed_init, of k es vt_symbols]
  by (simp add: init_fields position_gate)

text \<open>
  The spec's test: the contract, then the same position three times; exactly one
  position-driven subscribe.
\<close>

lemma repeated_position_subscribes_once:
  "position_subscribes ''rb.SHFE''
     (EVENT_CONTRACT rb_contract # replicate 3 (EVENT_POSITION (rb_position 1))) (init []) = 1"
  by (simp add: numeral_3_eq_3 init_fields handler_defs effect_defs Let_def subscribe_count_def)
    (simp add: example_defs position_defs)

theorem position_path_subscribes_at_most_once_witness:
  "position_subscribes ''rb.SHFE''
     (EVENT_CONTRACT rb_contract # replicate 3 (EVENT_POSITION (rb_position 1))) (init []) = 1 \<and>
   gateway (process_position_event (rb_position 2)
       (state_of (run [EVENT_CONTRACT rb_contract, EVENT_POSITION (rb_position 1)] (init [])))) =
     gateway (state_of (run [EVENT_CONTRACT rb_contract, EVENT_POSITION (rb_position 1)] (init [])))"
  using position_path_subscribes_at_most_once
    [of "''rb.SHFE''" "EVENT_CONTRACT rb_contract # replicate 3 (EVENT_POSITION (rb_position 1))"
      "[]" "rb_position 2"
      "state_of (run [EVENT_CONTRACT rb_contract, EVENT_POSITION (rb_position 1)] (init []))"]
    repeated_position_subscribes_once
  by (simp add: init_fields handler_defs effect_defs Let_def)
    (simp add: example_defs position_defs)

section \<open>Subscribed instruments have contracts\<close>

text \<open>
  C10: every handler keeps the invariant that each key in \<open>subscribed\<close> has a contract
  in \<open>contracts\<close>, and handling an event removes nothing from \<open>subscribed\<close> or from the
  keys of \<open>contracts\<close>.
\<close>

theorem subscribed_instruments_have_contracts:
  assumes "subscribed_have_contracts s"
  shows "subscribed_have_contracts (state_of (process_tick_event t s)) \<and>
    subscribed_have_contracts (process_contract_event c s) \<and>
    subscribed_have_contracts (process_position_event p s) \<and>
    subscribed_have_contracts (snd (process_timer_event s)) \<and>
    subscribed_have_contracts (snd (process_log_event d s)) \<and>
    subscribed s \<subseteq> subscribed (state_of (dispatch e s)) \<and>
    dom (contracts s) \<subseteq> dom (contracts (state_of (dispatch e s)))"
proof -
  have mono: "subscribed s \<subseteq> subscribed (state_of (dispatch e s)) \<and>
    dom (contracts s) \<subseteq> dom (contracts (state_of (dispatch e s)))"
    by (cases e)
      (auto simp add: tick_keeps contract_keeps position_keeps position_subscribed
        process_log_event_def)
  from assms have "subscribed_have_contracts (state_of (process_tick_event t s))"
    by (simp add: subscribed_have_contracts_def tick_keeps)
  moreover from assms have "subscribed_have_contracts (process_contract_event c s)"
    by (auto simp add: subscribed_have_contracts_def contract_keeps)
  moreover from assms have "subscribed_have_contracts (process_position_event p s)"
    by (auto simp add: subscribed_have_contracts_def position_keeps position_subscribed)
  moreover from assms have "subscribed_have_contracts (snd (process_timer_event s))"
    by (simp add: process_timer_event_def calculate_value_def)
  moreover from assms have "subscribed_have_contracts (snd (process_log_event d s))"
    by (simp add: process_log_event_def)
  ultimately show ?thesis using mono by simp
qed

lemma subscribed_have_contracts_init: "subscribed_have_contracts (init xs)"
  by (simp add: subscribed_have_contracts_def init_fields)

theorem subscribed_instruments_have_contracts_witness:
  "subscribed_have_contracts
     (process_position_event (rb_position 1) (process_contract_event rb_contract (init []))) \<and>
   subscribed (process_position_event (rb_position 1)
     (process_contract_event rb_contract (init []))) = {''rb.SHFE''}"
  using subscribed_instruments_have_contracts
    [of "process_contract_event rb_contract (init [])" "rb_tick 1 1" rb_contract
      "rb_position 1" "\<lparr>msg = Buy_open_1 ''rb.SHFE'' 1, gateway_name = ''STRATEGY''\<rparr>"
      "EVENT_POSITION (rb_position 1)"]
    subscribed_instruments_have_contracts
    [of "init []" "rb_tick 1 1" rb_contract
      "rb_position 1" "\<lparr>msg = Buy_open_1 ''rb.SHFE'' 1, gateway_name = ''STRATEGY''\<rparr>"
      "EVENT_CONTRACT rb_contract"]
    subscribed_have_contracts_init [of "[]"]
  by (simp add: position_subscribed contract_keeps init_fields)
    (simp add: example_defs position_defs)

section \<open>Valuation\<close>




end
